theory Spec2Isabelle
  imports Main
begin

section \<open>The abstract-domain scaffolding of libredex/AbstractDomain.h\<close>

subsection \<open>Kinds and the AbstractValue interface\<close>

text \<open>
  \<^verbatim>\<open>enum class Kind { Bottom, Value, Top };\<close>
\<close>

datatype AbstractValueKind = Bottom | Value | Top

text \<open>
  Failure of \<^verbatim>\<open>always_assert\<close> / \<^verbatim>\<open>assert\<close> is a result of its own.
\<close>

datatype error = AssertionFailure

text \<open>
  \<^verbatim>\<open>template <typename Derived> class AbstractValue\<close> is an interface of pure virtual
  methods. The scaffolding is a template over any implementation of it, so the
  implementation is a parameter of the model: a record of the methods. A method that
  mutates its receiver returns the receiver's new state; the lattice operations also
  return the \<^verbatim>\<open>Kind\<close> that the C++ method returns. The scaffolding requires the value
  type to be default constructible; \<open>value_default\<close> is the default-constructed value.
\<close>

record 'v AbstractValue =
  value_default :: "'v"
  value_clear :: "'v \<Rightarrow> 'v"
  value_kind :: "'v \<Rightarrow> AbstractValueKind"
  value_leq :: "'v \<Rightarrow> 'v \<Rightarrow> bool"
  value_equals :: "'v \<Rightarrow> 'v \<Rightarrow> bool"
  value_join_with :: "'v \<Rightarrow> 'v \<Rightarrow> AbstractValueKind \<times> 'v"
  value_widen_with :: "'v \<Rightarrow> 'v \<Rightarrow> AbstractValueKind \<times> 'v"
  value_meet_with :: "'v \<Rightarrow> 'v \<Rightarrow> AbstractValueKind \<times> 'v"
  value_narrow_with :: "'v \<Rightarrow> 'v \<Rightarrow> AbstractValueKind \<times> 'v"

subsection \<open>AbstractDomainScaffolding\<close>

text \<open>
  The two private members \<^verbatim>\<open>AbstractValueKind m_kind; Value m_value;\<close>.
\<close>

record 'v AbstractDomainScaffolding =
  m_kind :: AbstractValueKind
  m_value :: "'v"

text \<open>
  \<^verbatim>\<open>AbstractDomainScaffolding() { m_kind = m_value.kind(); }\<close>
\<close>

definition AbstractDomainScaffolding_default ::
  "'v AbstractValue \<Rightarrow> 'v AbstractDomainScaffolding" where
  "AbstractDomainScaffolding_default ops =
     \<lparr>m_kind = value_kind ops (value_default ops), m_value = value_default ops\<rparr>"

text \<open>
  \<^verbatim>\<open>explicit AbstractDomainScaffolding(AbstractValueKind kind) : m_kind(kind) {
    always_assert(kind != AbstractValueKind::Value); }\<close>
  The member \<^verbatim>\<open>m_value\<close> is default constructed; nothing else touches it.
\<close>

definition AbstractDomainScaffolding_kind ::
  "'v AbstractValue \<Rightarrow> AbstractValueKind \<Rightarrow> error + 'v AbstractDomainScaffolding" where
  "AbstractDomainScaffolding_kind ops kind =
     (let this = \<lparr>m_kind = kind, m_value = value_default ops\<rparr>
      in if kind \<noteq> Value then Inr this else Inl AssertionFailure)"

definition kind :: "'v AbstractDomainScaffolding \<Rightarrow> AbstractValueKind" where
  "kind this = m_kind this"

definition is_bottom :: "'v AbstractDomainScaffolding \<Rightarrow> bool" where
  "is_bottom this = (m_kind this = Bottom)"

definition is_top :: "'v AbstractDomainScaffolding \<Rightarrow> bool" where
  "is_top this = (m_kind this = Top)"

definition is_value :: "'v AbstractDomainScaffolding \<Rightarrow> bool" where
  "is_value this = (m_kind this = Value)"

definition set_to_bottom ::
  "'v AbstractValue \<Rightarrow> 'v AbstractDomainScaffolding \<Rightarrow> 'v AbstractDomainScaffolding" where
  "set_to_bottom ops this =
     \<lparr>m_kind = Bottom, m_value = value_clear ops (m_value this)\<rparr>"

definition set_to_top ::
  "'v AbstractValue \<Rightarrow> 'v AbstractDomainScaffolding \<Rightarrow> 'v AbstractDomainScaffolding" where
  "set_to_top ops this =
     \<lparr>m_kind = Top, m_value = value_clear ops (m_value this)\<rparr>"

text \<open>
  \<^verbatim>\<open>leq\<close>: four early returns, then an \<^verbatim>\<open>assert\<close> that both kinds are
  \<^verbatim>\<open>Value\<close>, then the comparison of the values.
\<close>

definition leq ::
  "'v AbstractValue \<Rightarrow> 'v AbstractDomainScaffolding \<Rightarrow> 'v AbstractDomainScaffolding
     \<Rightarrow> error + bool" where
  "leq ops this other =
     (if is_bottom this then Inr True
      else if is_bottom other then Inr False
      else if is_top other then Inr True
      else if is_top this then Inr False
      else if m_kind this = Value \<and> m_kind other = Value
        then Inr (value_leq ops (m_value this) (m_value other))
      else Inl AssertionFailure)"

text \<open>
  \<^verbatim>\<open>return m_kind == other.m_kind && m_value.equals(other.m_value);\<close>
\<close>

definition equals ::
  "'v AbstractValue \<Rightarrow> 'v AbstractDomainScaffolding \<Rightarrow> 'v AbstractDomainScaffolding
     \<Rightarrow> bool" where
  "equals ops this other =
     (m_kind this = m_kind other \<and> value_equals ops (m_value this) (m_value other))"

text \<open>
  The private helpers take the value-level step as a closure
  \<^verbatim>\<open>std::function<void()> operation\<close> that mutates the receiver; here it is a function
  from the receiver's state to its new state.
\<close>

definition join_like_operation_with ::
  "'v AbstractValue \<Rightarrow> 'v AbstractDomainScaffolding \<Rightarrow> 'v AbstractDomainScaffolding
     \<Rightarrow> ('v AbstractDomainScaffolding \<Rightarrow> 'v AbstractDomainScaffolding)
     \<Rightarrow> 'v AbstractDomainScaffolding" where
  "join_like_operation_with ops this other operation =
     (if is_top this \<or> is_bottom other then this
      else if is_top other then set_to_top ops this
      else if is_bottom this then this\<lparr>m_kind := m_kind other, m_value := m_value other\<rparr>
      else operation this)"

definition meet_like_operation_with ::
  "'v AbstractValue \<Rightarrow> 'v AbstractDomainScaffolding \<Rightarrow> 'v AbstractDomainScaffolding
     \<Rightarrow> ('v AbstractDomainScaffolding \<Rightarrow> 'v AbstractDomainScaffolding)
     \<Rightarrow> 'v AbstractDomainScaffolding" where
  "meet_like_operation_with ops this other operation =
     (if is_bottom this \<or> is_top other then this
      else if is_bottom other then set_to_bottom ops this
      else if is_top this then this\<lparr>m_kind := m_kind other, m_value := m_value other\<rparr>
      else operation this)"

text \<open>
  \<^verbatim>\<open>m_kind = m_value.join_with(other.m_value);\<close> runs the method of the value, which
  mutates \<^verbatim>\<open>m_value\<close>, and stores the returned kind.
\<close>

definition join_with ::
  "'v AbstractValue \<Rightarrow> 'v AbstractDomainScaffolding \<Rightarrow> 'v AbstractDomainScaffolding
     \<Rightarrow> 'v AbstractDomainScaffolding" where
  "join_with ops this other =
     (let value_join = (\<lambda>self.
            case value_join_with ops (m_value self) (m_value other) of
              (k, v) \<Rightarrow> self\<lparr>m_value := v, m_kind := k\<rparr>)
      in join_like_operation_with ops this other value_join)"

definition widen_with ::
  "'v AbstractValue \<Rightarrow> 'v AbstractDomainScaffolding \<Rightarrow> 'v AbstractDomainScaffolding
     \<Rightarrow> 'v AbstractDomainScaffolding" where
  "widen_with ops this other =
     (let value_widening = (\<lambda>self.
            case value_widen_with ops (m_value self) (m_value other) of
              (k, v) \<Rightarrow> self\<lparr>m_value := v, m_kind := k\<rparr>)
      in join_like_operation_with ops this other value_widening)"

definition meet_with ::
  "'v AbstractValue \<Rightarrow> 'v AbstractDomainScaffolding \<Rightarrow> 'v AbstractDomainScaffolding
     \<Rightarrow> 'v AbstractDomainScaffolding" where
  "meet_with ops this other =
     (let value_meet = (\<lambda>self.
            case value_meet_with ops (m_value self) (m_value other) of
              (k, v) \<Rightarrow> self\<lparr>m_value := v, m_kind := k\<rparr>)
      in meet_like_operation_with ops this other value_meet)"

definition narrow_with ::
  "'v AbstractValue \<Rightarrow> 'v AbstractDomainScaffolding \<Rightarrow> 'v AbstractDomainScaffolding
     \<Rightarrow> 'v AbstractDomainScaffolding" where
  "narrow_with ops this other =
     (let value_narrowing = (\<lambda>self.
            case value_narrow_with ops (m_value self) (m_value other) of
              (k, v) \<Rightarrow> self\<lparr>m_value := v, m_kind := k\<rparr>)
      in meet_like_operation_with ops this other value_narrowing)"

text \<open>
  \<^verbatim>\<open>void set_to_value(const Value& value) { m_kind = value.kind(); m_value = value; }\<close>
\<close>

definition set_to_value ::
  "'v AbstractValue \<Rightarrow> 'v AbstractDomainScaffolding \<Rightarrow> 'v \<Rightarrow> 'v AbstractDomainScaffolding" where
  "set_to_value ops this v = this\<lparr>m_kind := value_kind ops v, m_value := v\<rparr>"

text \<open>
  \<^verbatim>\<open>void normalize() { m_kind = m_value.kind();
    if (m_kind == Bottom || m_kind == Top) { m_value.clear(); } }\<close>
\<close>

definition normalize_scaffolding ::
  "'v AbstractValue \<Rightarrow> 'v AbstractDomainScaffolding \<Rightarrow> 'v AbstractDomainScaffolding" where
  "normalize_scaffolding ops this =
     (let this1 = this\<lparr>m_kind := value_kind ops (m_value this)\<rparr>
      in if m_kind this1 = Bottom \<or> m_kind this1 = Top
         then this1\<lparr>m_value := value_clear ops (m_value this1)\<rparr>
         else this1)"

subsection \<open>Objects: receivers and arguments by reference\<close>

text \<open>
  The C++ methods act on objects: the receiver is \<^verbatim>\<open>*this\<close>, the argument is a
  \<^verbatim>\<open>const Derived&\<close>, and both may be the same object. A store maps addresses to the
  state of the object that lives there; \<open>brk\<close> is the first address not in use, where the
  next local object is placed.
\<close>

type_synonym addr = nat

record 'd store =
  heap :: "addr \<Rightarrow> 'd"
  brk :: addr

text \<open>
  An assignment to a member of the object at an address: \<^verbatim>\<open>m_kind = k;\<close> and
  \<^verbatim>\<open>m_value = v;\<close> (or a mutating method of \<^verbatim>\<open>m_value\<close> that leaves \<open>v\<close>).
\<close>

definition assign_m_kind ::
  "addr \<Rightarrow> AbstractValueKind \<Rightarrow> 'v AbstractDomainScaffolding store
     \<Rightarrow> 'v AbstractDomainScaffolding store" where
  "assign_m_kind this k s = s\<lparr>heap := (heap s)(this := (heap s this)\<lparr>m_kind := k\<rparr>)\<rparr>"

definition assign_m_value ::
  "addr \<Rightarrow> 'v \<Rightarrow> 'v AbstractDomainScaffolding store
     \<Rightarrow> 'v AbstractDomainScaffolding store" where
  "assign_m_value this v s = s\<lparr>heap := (heap s)(this := (heap s this)\<lparr>m_value := v\<rparr>)\<rparr>"

text \<open>
  The methods again, statement by statement, on the objects at the addresses of the
  receiver and of the argument. Each read goes through the store as it is at that point
  of the method, so a write to the receiver is seen by a later read of the argument when
  both are the same object.

  \<^verbatim>\<open>void set_to_top() { m_kind = Top; m_value.clear(); }\<close> and its dual:
\<close>

definition set_to_top_at ::
  "'v AbstractValue \<Rightarrow> addr \<Rightarrow> 'v AbstractDomainScaffolding store
     \<Rightarrow> 'v AbstractDomainScaffolding store" where
  "set_to_top_at ops this s =
     (let s1 = assign_m_kind this Top s
      in assign_m_value this (value_clear ops (m_value (heap s1 this))) s1)"

definition set_to_bottom_at ::
  "'v AbstractValue \<Rightarrow> addr \<Rightarrow> 'v AbstractDomainScaffolding store
     \<Rightarrow> 'v AbstractDomainScaffolding store" where
  "set_to_bottom_at ops this s =
     (let s1 = assign_m_kind this Bottom s
      in assign_m_value this (value_clear ops (m_value (heap s1 this))) s1)"

text \<open>
  \<^verbatim>\<open>join_like_operation_with(const Derived& other, std::function<void()> operation)\<close>
  and its dual; the closure is a store transformer.
\<close>

definition join_like_operation_with_at ::
  "'v AbstractValue \<Rightarrow> addr \<Rightarrow> addr
     \<Rightarrow> ('v AbstractDomainScaffolding store \<Rightarrow> 'v AbstractDomainScaffolding store)
     \<Rightarrow> 'v AbstractDomainScaffolding store \<Rightarrow> 'v AbstractDomainScaffolding store" where
  "join_like_operation_with_at ops this other operation s =
     (if is_top (heap s this) \<or> is_bottom (heap s other) then s
      else if is_top (heap s other) then set_to_top_at ops this s
      else if is_bottom (heap s this) then
        (let s1 = assign_m_kind this (m_kind (heap s other)) s
         in assign_m_value this (m_value (heap s1 other)) s1)
      else operation s)"

definition meet_like_operation_with_at ::
  "'v AbstractValue \<Rightarrow> addr \<Rightarrow> addr
     \<Rightarrow> ('v AbstractDomainScaffolding store \<Rightarrow> 'v AbstractDomainScaffolding store)
     \<Rightarrow> 'v AbstractDomainScaffolding store \<Rightarrow> 'v AbstractDomainScaffolding store" where
  "meet_like_operation_with_at ops this other operation s =
     (if is_bottom (heap s this) \<or> is_top (heap s other) then s
      else if is_bottom (heap s other) then set_to_bottom_at ops this s
      else if is_top (heap s this) then
        (let s1 = assign_m_kind this (m_kind (heap s other)) s
         in assign_m_value this (m_value (heap s1 other)) s1)
      else operation s)"

text \<open>
  The four public methods. In \<^verbatim>\<open>m_kind = m_value.join_with(other.m_value);\<close> the
  method of the value reads its argument and mutates \<^verbatim>\<open>m_value\<close>, then the kind it
  returns is assigned.
\<close>

definition join_with_at ::
  "'v AbstractValue \<Rightarrow> addr \<Rightarrow> addr \<Rightarrow> 'v AbstractDomainScaffolding store
     \<Rightarrow> 'v AbstractDomainScaffolding store" where
  "join_with_at ops this other s =
     (let value_join = (\<lambda>s.
            case value_join_with ops (m_value (heap s this)) (m_value (heap s other)) of
              (k, v) \<Rightarrow> assign_m_kind this k (assign_m_value this v s))
      in join_like_operation_with_at ops this other value_join s)"

definition widen_with_at ::
  "'v AbstractValue \<Rightarrow> addr \<Rightarrow> addr \<Rightarrow> 'v AbstractDomainScaffolding store
     \<Rightarrow> 'v AbstractDomainScaffolding store" where
  "widen_with_at ops this other s =
     (let value_widening = (\<lambda>s.
            case value_widen_with ops (m_value (heap s this)) (m_value (heap s other)) of
              (k, v) \<Rightarrow> assign_m_kind this k (assign_m_value this v s))
      in join_like_operation_with_at ops this other value_widening s)"

definition meet_with_at ::
  "'v AbstractValue \<Rightarrow> addr \<Rightarrow> addr \<Rightarrow> 'v AbstractDomainScaffolding store
     \<Rightarrow> 'v AbstractDomainScaffolding store" where
  "meet_with_at ops this other s =
     (let value_meet = (\<lambda>s.
            case value_meet_with ops (m_value (heap s this)) (m_value (heap s other)) of
              (k, v) \<Rightarrow> assign_m_kind this k (assign_m_value this v s))
      in meet_like_operation_with_at ops this other value_meet s)"

definition narrow_with_at ::
  "'v AbstractValue \<Rightarrow> addr \<Rightarrow> addr \<Rightarrow> 'v AbstractDomainScaffolding store
     \<Rightarrow> 'v AbstractDomainScaffolding store" where
  "narrow_with_at ops this other s =
     (let value_narrowing = (\<lambda>s.
            case value_narrow_with ops (m_value (heap s this)) (m_value (heap s other)) of
              (k, v) \<Rightarrow> assign_m_kind this k (assign_m_value this v s))
      in meet_like_operation_with_at ops this other value_narrowing s)"

subsection \<open>The functional interface of AbstractDomain\<close>

text \<open>
  \<^verbatim>\<open>template <typename Derived> class AbstractDomain\<close> declares the in-place operations
  as pure virtual methods and builds the functional ones on them. The overriders that
  the functional interface calls are a record of methods on objects of the derived class.
\<close>

record 'd AbstractDomain =
  virtual_join_with :: "addr \<Rightarrow> addr \<Rightarrow> 'd store \<Rightarrow> 'd store"
  virtual_widen_with :: "addr \<Rightarrow> addr \<Rightarrow> 'd store \<Rightarrow> 'd store"
  virtual_meet_with :: "addr \<Rightarrow> addr \<Rightarrow> 'd store \<Rightarrow> 'd store"
  virtual_narrow_with :: "addr \<Rightarrow> addr \<Rightarrow> 'd store \<Rightarrow> 'd store"

text \<open>
  \<^verbatim>\<open>Derived tmp(static_cast<const Derived&>(*this)); tmp.join_with(other); return tmp;\<close>
  The local \<^verbatim>\<open>tmp\<close> is placed at \<open>brk\<close>, copy constructed from the receiver, mutated
  and returned by value; its place is given back on return.
\<close>

definition join :: "'d AbstractDomain \<Rightarrow> addr \<Rightarrow> addr \<Rightarrow> 'd store \<Rightarrow> 'd \<times> 'd store" where
  "join vt self other s =
     (let tmp = brk s;
          s1 = s\<lparr>heap := (heap s)(tmp := heap s self), brk := Suc tmp\<rparr>;
          s2 = virtual_join_with vt tmp other s1
      in (heap s2 tmp, s2\<lparr>brk := tmp\<rparr>))"

definition widening :: "'d AbstractDomain \<Rightarrow> addr \<Rightarrow> addr \<Rightarrow> 'd store \<Rightarrow> 'd \<times> 'd store" where
  "widening vt self other s =
     (let tmp = brk s;
          s1 = s\<lparr>heap := (heap s)(tmp := heap s self), brk := Suc tmp\<rparr>;
          s2 = virtual_widen_with vt tmp other s1
      in (heap s2 tmp, s2\<lparr>brk := tmp\<rparr>))"

definition meet :: "'d AbstractDomain \<Rightarrow> addr \<Rightarrow> addr \<Rightarrow> 'd store \<Rightarrow> 'd \<times> 'd store" where
  "meet vt self other s =
     (let tmp = brk s;
          s1 = s\<lparr>heap := (heap s)(tmp := heap s self), brk := Suc tmp\<rparr>;
          s2 = virtual_meet_with vt tmp other s1
      in (heap s2 tmp, s2\<lparr>brk := tmp\<rparr>))"

definition narrowing_domain :: "'d AbstractDomain \<Rightarrow> addr \<Rightarrow> addr \<Rightarrow> 'd store \<Rightarrow> 'd \<times> 'd store" where
  "narrowing_domain vt self other s =
     (let tmp = brk s;
          s1 = s\<lparr>heap := (heap s)(tmp := heap s self), brk := Suc tmp\<rparr>;
          s2 = virtual_narrow_with vt tmp other s1
      in (heap s2 tmp, s2\<lparr>brk := tmp\<rparr>))"

text \<open>
  \<^verbatim>\<open>class AbstractDomainScaffolding : public AbstractDomain<Derived>\<close> overrides the four
  methods with its own.
\<close>

definition AbstractDomainScaffolding_methods ::
  "'v AbstractValue \<Rightarrow> 'v AbstractDomainScaffolding AbstractDomain" where
  "AbstractDomainScaffolding_methods ops =
     \<lparr>virtual_join_with = join_with_at ops,
      virtual_widen_with = widen_with_at ops,
      virtual_meet_with = meet_with_at ops,
      virtual_narrow_with = narrow_with_at ops\<rparr>"

subsection \<open>An implementation of the value interface\<close>

text \<open>
  The header's sample usage sketches \<^verbatim>\<open>class MyAbstractValue\<close> with a table
  \<^verbatim>\<open>m_table\<close> that \<^verbatim>\<open>clear()\<close> empties. The scaffolding is run below on such a value:
  the table is a set of registers out of \<open>V0\<close> and \<open>V1\<close>, ordered by inclusion. As the
  header allows (\<^emph>\<open>these elements may still be represented by regular abstract values\<close>),
  \<^verbatim>\<open>kind()\<close> classifies the empty table as Bottom and the table of all registers as Top;
  join is union, meet is intersection, and each returns the kind of its result.
\<close>

datatype register = V0 | V1

definition MyAbstractValue_kind :: "register set \<Rightarrow> AbstractValueKind" where
  "MyAbstractValue_kind m_table =
     (if m_table = {} then Bottom else if m_table = {V0, V1} then Top else Value)"

definition MyAbstractValue :: "register set AbstractValue" where
  "MyAbstractValue =
     \<lparr>value_default = {},
      value_clear = (\<lambda>m_table. {}),
      value_kind = MyAbstractValue_kind,
      value_leq = (\<lambda>m_table other. m_table \<subseteq> other),
      value_equals = (\<lambda>m_table other. m_table = other),
      value_join_with = (\<lambda>m_table other.
         (MyAbstractValue_kind (m_table \<union> other), m_table \<union> other)),
      value_widen_with = (\<lambda>m_table other.
         (MyAbstractValue_kind (m_table \<union> other), m_table \<union> other)),
      value_meet_with = (\<lambda>m_table other.
         (MyAbstractValue_kind (m_table \<inter> other), m_table \<inter> other)),
      value_narrow_with = (\<lambda>m_table other.
         (MyAbstractValue_kind (m_table \<inter> other), m_table \<inter> other))\<rparr>"

text \<open>
  A derived domain \<^verbatim>\<open>MyAbstractDomain\<close> builds an element from a table with the
  protected \<^verbatim>\<open>set_to_value\<close> on a default-constructed scaffolding.
\<close>

definition MyAbstractDomain :: "register set \<Rightarrow> register set AbstractDomainScaffolding" where
  "MyAbstractDomain m_table =
     set_to_value MyAbstractValue (AbstractDomainScaffolding_default MyAbstractValue) m_table"

text \<open>Two objects, holding \<open>{V0}\<close> at address 0 and \<open>{V1}\<close> at address 1.\<close>

definition two_objects :: "register set AbstractDomainScaffolding store" where
  "two_objects =
     \<lparr>heap = (\<lambda>p. if p = 0 then MyAbstractDomain {V0} else MyAbstractDomain {V1}), brk = 2\<rparr>"

subsection \<open>A value with delayed widening\<close>

text \<open>
  A second implementation of the value interface: an upper bound paired with the number
  of widening steps taken so far, ordered componentwise. \<^verbatim>\<open>widen_with\<close> counts a step,
  and returns Top, leaving the value alone, once three steps have been counted; join and
  meet are the componentwise maximum and minimum. The kind of a value is always Value.
\<close>

definition DelayedWidening :: "(nat \<times> nat) AbstractValue" where
  "DelayedWidening =
     \<lparr>value_default = (0, 0),
      value_clear = (\<lambda>v. (0, 0)),
      value_kind = (\<lambda>v. Value),
      value_leq = (\<lambda>v other. fst v \<le> fst other \<and> snd v \<le> snd other),
      value_equals = (\<lambda>v other. v = other),
      value_join_with = (\<lambda>v other.
         (Value, (max (fst v) (fst other), max (snd v) (snd other)))),
      value_widen_with = (\<lambda>v other.
         if max (snd v) (snd other) < 3
         then (Value, (max (fst v) (fst other), Suc (max (snd v) (snd other))))
         else (Top, v)),
      value_meet_with = (\<lambda>v other.
         (Value, (min (fst v) (fst other), min (snd v) (snd other)))),
      value_narrow_with = (\<lambda>v other.
         (Value, (min (fst v) (fst other), min (snd v) (snd other))))\<rparr>"

text \<open>One object at address 0: the bound 5, not widened so far.\<close>

definition one_object :: "(nat \<times> nat) AbstractDomainScaffolding store" where
  "one_object =
     \<lparr>heap = (\<lambda>p. set_to_value DelayedWidening
                      (AbstractDomainScaffolding_default DelayedWidening) (5, 0)),
      brk = 1\<rparr>"

section \<open>Properties\<close>

lemmas scaffolding_defs = join_with_def widen_with_def meet_with_def narrow_with_def
  join_like_operation_with_def meet_like_operation_with_def is_top_def is_bottom_def
  set_to_top_def set_to_bottom_def

lemmas MyAbstractValue_defs = MyAbstractValue_def MyAbstractValue_kind_def
  MyAbstractDomain_def set_to_value_def AbstractDomainScaffolding_default_def

text \<open>The elements that the examples below start from.\<close>

lemma MyAbstractDomain_v0: "MyAbstractDomain {V0} = \<lparr>m_kind = Value, m_value = {V0}\<rparr>"
  by (simp add: MyAbstractValue_defs)

lemma MyAbstractDomain_v1: "MyAbstractDomain {V1} = \<lparr>m_kind = Value, m_value = {V1}\<rparr>"
  by (simp add: MyAbstractValue_defs)

lemma MyAbstractValue_fields:
  "value_default MyAbstractValue = {}"
  "value_clear MyAbstractValue t = {}"
  "value_leq MyAbstractValue t u = (t \<subseteq> u)"
  "value_equals MyAbstractValue t u = (t = u)"
  by (simp_all add: MyAbstractValue_def)

lemma join_v0_v1:
  "join_with MyAbstractValue \<lparr>m_kind = Value, m_value = {V0}\<rparr> \<lparr>m_kind = Value, m_value = {V1}\<rparr>
     = \<lparr>m_kind = Top, m_value = {V0, V1}\<rparr>"
  by (simp add: scaffolding_defs MyAbstractValue_defs insert_commute)

lemma widen_v0_v1:
  "widen_with MyAbstractValue \<lparr>m_kind = Value, m_value = {V0}\<rparr> \<lparr>m_kind = Value, m_value = {V1}\<rparr>
     = \<lparr>m_kind = Top, m_value = {V0, V1}\<rparr>"
  by (simp add: scaffolding_defs MyAbstractValue_defs insert_commute)

subsection \<open>Extremal kinds and the cleared value\<close>

text \<open>
  C1. The claim: after any public operation, an element whose kind is Top or Bottom has
  a cleared value; in particular the scaffolding clears the value when a value-level
  join of two Value-kind elements returns an extremal kind. The code stores the returned
  kind and does not call \<^verbatim>\<open>clear()\<close>: joining (or widening) the elements \<open>{V0}\<close> and
  \<open>{V1}\<close> gives an element of kind Top that still holds the table \<open>{V0, V1}\<close>, which is
  neither the result of \<^verbatim>\<open>clear()\<close> on any value nor the default-constructed value,
  while \<^verbatim>\<open>set_to_top()\<close> on the same receiver leaves the cleared table.
\<close>

theorem join_with_extremal_kind_value_not_cleared:
  "m_kind (MyAbstractDomain {V0}) = Value \<and> m_kind (MyAbstractDomain {V1}) = Value
   \<and> m_kind (join_with MyAbstractValue (MyAbstractDomain {V0}) (MyAbstractDomain {V1})) = Top
   \<and> m_value (join_with MyAbstractValue (MyAbstractDomain {V0}) (MyAbstractDomain {V1})) = {V0, V1}
   \<and> (\<forall>v. m_value (join_with MyAbstractValue (MyAbstractDomain {V0}) (MyAbstractDomain {V1}))
            \<noteq> value_clear MyAbstractValue v)
   \<and> m_value (join_with MyAbstractValue (MyAbstractDomain {V0}) (MyAbstractDomain {V1}))
        \<noteq> value_default MyAbstractValue
   \<and> widen_with MyAbstractValue (MyAbstractDomain {V0}) (MyAbstractDomain {V1})
        = \<lparr>m_kind = Top, m_value = {V0, V1}\<rparr>
   \<and> set_to_top MyAbstractValue (MyAbstractDomain {V0}) = \<lparr>m_kind = Top, m_value = {}\<rparr>"
  by (simp add: join_v0_v1 widen_v0_v1 MyAbstractDomain_v0 MyAbstractDomain_v1
        MyAbstractValue_fields set_to_top_def)

subsection \<open>Order and equality\<close>

text \<open>
  C2. The claim: \<open>a.equals(b)\<close> holds exactly when \<open>a.leq(b)\<close> and \<open>b.leq(a)\<close> hold,
  also for Top and Bottom. The code compares the values of two elements of equal kind
  whatever the kind is. The join of \<open>{V0}\<close> and \<open>{V1}\<close> and the result of
  \<^verbatim>\<open>set_to_top()\<close> are both Top and each is \<^verbatim>\<open>leq\<close> the other, but \<^verbatim>\<open>equals\<close>
  returns false on them.
\<close>

theorem equals_false_on_two_top_elements:
  "is_top (join_with MyAbstractValue (MyAbstractDomain {V0}) (MyAbstractDomain {V1}))
   \<and> is_top (set_to_top MyAbstractValue (MyAbstractDomain {V0}))
   \<and> leq MyAbstractValue
        (join_with MyAbstractValue (MyAbstractDomain {V0}) (MyAbstractDomain {V1}))
        (set_to_top MyAbstractValue (MyAbstractDomain {V0})) = Inr True
   \<and> leq MyAbstractValue
        (set_to_top MyAbstractValue (MyAbstractDomain {V0}))
        (join_with MyAbstractValue (MyAbstractDomain {V0}) (MyAbstractDomain {V1})) = Inr True
   \<and> equals MyAbstractValue
        (join_with MyAbstractValue (MyAbstractDomain {V0}) (MyAbstractDomain {V1}))
        (set_to_top MyAbstractValue (MyAbstractDomain {V0})) = False"
  by (simp add: join_v0_v1 MyAbstractDomain_v0 MyAbstractDomain_v1 MyAbstractValue_fields
        set_to_top_def leq_def equals_def is_top_def is_bottom_def)

text \<open>
  C6. \<open>bottom().leq(a)\<close> and \<open>a.leq(top())\<close> hold for every element \<open>a\<close>, where the
  extremal elements are built by the constructor from a kind. A Bottom element is below
  everything, everything is below a Top element, a non-Bottom element is never below
  Bottom, a Top element is never below a non-Top element, and two Value-kind elements
  are compared by the \<^verbatim>\<open>leq\<close> of their values. The assertion in \<^verbatim>\<open>leq\<close> does not fail
  in any of these cases.
\<close>

theorem leq_rules:
  "(m_kind a = Bottom \<longrightarrow> leq ops a b = Inr True)
   \<and> (m_kind b = Top \<longrightarrow> leq ops a b = Inr True)
   \<and> (m_kind a \<noteq> Bottom \<and> m_kind b = Bottom \<longrightarrow> leq ops a b = Inr False)
   \<and> (m_kind a = Top \<and> m_kind b \<noteq> Top \<longrightarrow> leq ops a b = Inr False)
   \<and> (m_kind a = Value \<and> m_kind b = Value \<longrightarrow>
         leq ops a b = Inr (value_leq ops (m_value a) (m_value b)))
   \<and> (\<exists>least. AbstractDomainScaffolding_kind ops Bottom = Inr least
          \<and> leq ops least a = Inr True)
   \<and> (\<exists>greatest. AbstractDomainScaffolding_kind ops Top = Inr greatest
          \<and> leq ops a greatest = Inr True)"
  by (cases "m_kind a"; cases "m_kind b")
     (simp_all add: leq_def is_top_def is_bottom_def AbstractDomainScaffolding_kind_def)

theorem leq_rules_witness:
  "m_kind (set_to_bottom MyAbstractValue (MyAbstractDomain {V0})) = Bottom
   \<and> leq MyAbstractValue (set_to_bottom MyAbstractValue (MyAbstractDomain {V0}))
        (MyAbstractDomain {V1}) = Inr True
   \<and> m_kind (set_to_top MyAbstractValue (MyAbstractDomain {V0})) = Top
   \<and> leq MyAbstractValue (MyAbstractDomain {V1})
        (set_to_top MyAbstractValue (MyAbstractDomain {V0})) = Inr True
   \<and> m_kind (MyAbstractDomain {V1}) \<noteq> Bottom
   \<and> leq MyAbstractValue (MyAbstractDomain {V1})
        (set_to_bottom MyAbstractValue (MyAbstractDomain {V0})) = Inr False
   \<and> m_kind (MyAbstractDomain {V1}) \<noteq> Top
   \<and> leq MyAbstractValue (set_to_top MyAbstractValue (MyAbstractDomain {V0}))
        (MyAbstractDomain {V1}) = Inr False
   \<and> m_kind (MyAbstractDomain {V0}) = Value \<and> m_kind (MyAbstractDomain {V1}) = Value
   \<and> leq MyAbstractValue (MyAbstractDomain {V0}) (MyAbstractDomain {V1}) = Inr False
   \<and> leq MyAbstractValue (MyAbstractDomain {V0}) (MyAbstractDomain {V0}) = Inr True"
  using leq_rules [where ops = MyAbstractValue
          and a = "set_to_bottom MyAbstractValue (MyAbstractDomain {V0})"
          and b = "MyAbstractDomain {V1}"]
        leq_rules [where ops = MyAbstractValue and a = "MyAbstractDomain {V1}"
          and b = "set_to_top MyAbstractValue (MyAbstractDomain {V0})"]
        leq_rules [where ops = MyAbstractValue and a = "MyAbstractDomain {V1}"
          and b = "set_to_bottom MyAbstractValue (MyAbstractDomain {V0})"]
        leq_rules [where ops = MyAbstractValue
          and a = "set_to_top MyAbstractValue (MyAbstractDomain {V0})"
          and b = "MyAbstractDomain {V1}"]
        leq_rules [where ops = MyAbstractValue and a = "MyAbstractDomain {V0}"
          and b = "MyAbstractDomain {V1}"]
        leq_rules [where ops = MyAbstractValue and a = "MyAbstractDomain {V0}"
          and b = "MyAbstractDomain {V0}"]
  by (simp add: MyAbstractDomain_v0 MyAbstractDomain_v1 MyAbstractValue_fields
        set_to_top_def set_to_bottom_def)

subsection \<open>The case tables of the binary operations\<close>

text \<open>
  C3. \<^verbatim>\<open>join_with\<close> and \<^verbatim>\<open>widen_with\<close> follow one case table: if the receiver is
  Top or the argument is Bottom, the receiver is unchanged; else if the argument is Top,
  the receiver becomes Top (by \<^verbatim>\<open>set_to_top()\<close>, which clears the value); else if the
  receiver is Bottom, the kind and the value of the argument are copied into it; else both
  are of kind Value, the operation of the value runs and the kind it returns becomes the
  kind of the receiver. In particular, joining with the Bottom element built from its kind
  changes nothing, and joining with the Top element built from its kind gives Top.
\<close>

theorem join_like_case_table:
  "join_with ops self other =
     (if m_kind self = Top \<or> m_kind other = Bottom then self
      else if m_kind other = Top
        then \<lparr>m_kind = Top, m_value = value_clear ops (m_value self)\<rparr>
      else if m_kind self = Bottom
        then \<lparr>m_kind = m_kind other, m_value = m_value other\<rparr>
      else \<lparr>m_kind = fst (value_join_with ops (m_value self) (m_value other)),
            m_value = snd (value_join_with ops (m_value self) (m_value other))\<rparr>)
   \<and> widen_with ops self other =
     (if m_kind self = Top \<or> m_kind other = Bottom then self
      else if m_kind other = Top
        then \<lparr>m_kind = Top, m_value = value_clear ops (m_value self)\<rparr>
      else if m_kind self = Bottom
        then \<lparr>m_kind = m_kind other, m_value = m_value other\<rparr>
      else \<lparr>m_kind = fst (value_widen_with ops (m_value self) (m_value other)),
            m_value = snd (value_widen_with ops (m_value self) (m_value other))\<rparr>)
   \<and> (\<exists>least. AbstractDomainScaffolding_kind ops Bottom = Inr least
          \<and> join_with ops self least = self \<and> widen_with ops self least = self)
   \<and> (\<exists>greatest. AbstractDomainScaffolding_kind ops Top = Inr greatest
          \<and> is_top (join_with ops self greatest) \<and> is_top (widen_with ops self greatest))"
  by (simp add: scaffolding_defs AbstractDomainScaffolding_kind_def split: prod.split)

text \<open>
  C4. \<^verbatim>\<open>meet_with\<close> and \<^verbatim>\<open>narrow_with\<close> follow the dual table: if the receiver is
  Bottom or the argument is Top, the receiver is unchanged; else if the argument is
  Bottom, the receiver becomes Bottom (by \<^verbatim>\<open>set_to_bottom()\<close>); else if the receiver is
  Top, the kind and the value of the argument are copied into it; else both are of kind
  Value, the operation of the value runs and the kind it returns becomes the kind of the
  receiver.
\<close>

theorem meet_like_case_table:
  "meet_with ops self other =
     (if m_kind self = Bottom \<or> m_kind other = Top then self
      else if m_kind other = Bottom
        then \<lparr>m_kind = Bottom, m_value = value_clear ops (m_value self)\<rparr>
      else if m_kind self = Top
        then \<lparr>m_kind = m_kind other, m_value = m_value other\<rparr>
      else \<lparr>m_kind = fst (value_meet_with ops (m_value self) (m_value other)),
            m_value = snd (value_meet_with ops (m_value self) (m_value other))\<rparr>)
   \<and> narrow_with ops self other =
     (if m_kind self = Bottom \<or> m_kind other = Top then self
      else if m_kind other = Bottom
        then \<lparr>m_kind = Bottom, m_value = value_clear ops (m_value self)\<rparr>
      else if m_kind self = Top
        then \<lparr>m_kind = m_kind other, m_value = m_value other\<rparr>
      else \<lparr>m_kind = fst (value_narrow_with ops (m_value self) (m_value other)),
            m_value = snd (value_narrow_with ops (m_value self) (m_value other))\<rparr>)"
  by (simp add: scaffolding_defs split: prod.split)

subsection \<open>Normalization and construction\<close>

text \<open>
  C7. \<^verbatim>\<open>normalize()\<close> sets the kind to \<^verbatim>\<open>m_value.kind()\<close>; if that kind is Bottom or
  Top the value becomes the result of \<^verbatim>\<open>clear()\<close>, and if it is Value the value is left
  as it was.
\<close>

theorem normalize_sets_kind_clears_extremal:
  "normalize_scaffolding ops this =
     \<lparr>m_kind = value_kind ops (m_value this),
      m_value = (if value_kind ops (m_value this) = Bottom
                    \<or> value_kind ops (m_value this) = Top
                 then value_clear ops (m_value this) else m_value this)\<rparr>"
  by (simp add: normalize_scaffolding_def Let_def)

text \<open>
  C8. The constructor from a kind \<open>k\<close> asserts that \<open>k\<close> is not Value: on Value the
  assertion fails; on Bottom and on Top it does not, the element built has
  \<^verbatim>\<open>kind()\<close> equal to \<open>k\<close>, and its value is the default-constructed one.
\<close>

theorem kind_constructor_precondition:
  "(k = Bottom \<or> k = Top \<longrightarrow>
      (\<exists>d. AbstractDomainScaffolding_kind ops k = Inr d \<and> kind d = k
           \<and> m_value d = value_default ops))
   \<and> AbstractDomainScaffolding_kind ops Value = Inl AssertionFailure"
  by (auto simp: AbstractDomainScaffolding_kind_def kind_def)

theorem kind_constructor_precondition_witness:
  "(Top = Bottom \<or> Top = Top)
   \<and> (\<exists>d. AbstractDomainScaffolding_kind MyAbstractValue Top = Inr d \<and> kind d = Top
           \<and> m_value d = {})
   \<and> AbstractDomainScaffolding_kind MyAbstractValue Value = Inl AssertionFailure"
  using kind_constructor_precondition [where k = Top and ops = MyAbstractValue]
  by (simp add: MyAbstractValue_fields)

subsection \<open>Effects on objects\<close>

lemmas at_defs = join_with_at_def widen_with_at_def meet_with_at_def narrow_with_at_def
  join_like_operation_with_at_def meet_like_operation_with_at_def
  set_to_top_at_def set_to_bottom_at_def assign_m_kind_def assign_m_value_def

lemma update_both_members:
  "(r :: 'v AbstractDomainScaffolding)\<lparr>m_kind := k, m_value := v\<rparr> = \<lparr>m_kind = k, m_value = v\<rparr>"
  "(r :: 'v AbstractDomainScaffolding)\<lparr>m_value := v, m_kind := k\<rparr> = \<lparr>m_kind = k, m_value = v\<rparr>"
  by (cases r, simp)+

text \<open>
  A call on objects writes the receiver with what the method computes from the states of
  receiver and argument at entry, and writes nothing else.
\<close>

lemma join_with_at_refines:
  "join_with_at ops this other s
     = s\<lparr>heap := (heap s)(this := join_with ops (heap s this) (heap s other))\<rparr>"
  by (cases "other = this")
     (auto simp: at_defs scaffolding_defs update_both_members Let_def split: prod.split)

lemma widen_with_at_refines:
  "widen_with_at ops this other s
     = s\<lparr>heap := (heap s)(this := widen_with ops (heap s this) (heap s other))\<rparr>"
  by (cases "other = this")
     (auto simp: at_defs scaffolding_defs update_both_members Let_def split: prod.split)

lemma meet_with_at_refines:
  "meet_with_at ops this other s
     = s\<lparr>heap := (heap s)(this := meet_with ops (heap s this) (heap s other))\<rparr>"
  by (cases "other = this")
     (auto simp: at_defs scaffolding_defs update_both_members Let_def split: prod.split)

lemma narrow_with_at_refines:
  "narrow_with_at ops this other s
     = s\<lparr>heap := (heap s)(this := narrow_with ops (heap s this) (heap s other))\<rparr>"
  by (cases "other = this")
     (auto simp: at_defs scaffolding_defs update_both_members Let_def split: prod.split)

lemmas at_refines = join_with_at_refines widen_with_at_refines meet_with_at_refines
  narrow_with_at_refines

text \<open>
  C10, as amended. A call of \<^verbatim>\<open>join_with\<close>, \<^verbatim>\<open>widen_with\<close>, \<^verbatim>\<open>meet_with\<close> or
  \<^verbatim>\<open>narrow_with\<close> leaves the kind and the value of its argument as they were whenever
  the argument is an object other than the receiver, and also in a self-call on an element
  of kind Top or Bottom. In a self-call on an element of kind Value the argument is the
  receiver: it ends with the value that the operation of the value leaves when run on
  the value with itself, and with the kind that this operation returns.
\<close>

theorem binary_operations_effect_on_argument:
  "heap (join_with_at ops self other s) other =
     (if other = self \<and> m_kind (heap s self) = Value
      then \<lparr>m_kind = fst (value_join_with ops (m_value (heap s self)) (m_value (heap s self))),
            m_value = snd (value_join_with ops (m_value (heap s self)) (m_value (heap s self)))\<rparr>
      else heap s other)
   \<and> heap (widen_with_at ops self other s) other =
     (if other = self \<and> m_kind (heap s self) = Value
      then \<lparr>m_kind = fst (value_widen_with ops (m_value (heap s self)) (m_value (heap s self))),
            m_value = snd (value_widen_with ops (m_value (heap s self)) (m_value (heap s self)))\<rparr>
      else heap s other)
   \<and> heap (meet_with_at ops self other s) other =
     (if other = self \<and> m_kind (heap s self) = Value
      then \<lparr>m_kind = fst (value_meet_with ops (m_value (heap s self)) (m_value (heap s self))),
            m_value = snd (value_meet_with ops (m_value (heap s self)) (m_value (heap s self)))\<rparr>
      else heap s other)
   \<and> heap (narrow_with_at ops self other s) other =
     (if other = self \<and> m_kind (heap s self) = Value
      then \<lparr>m_kind = fst (value_narrow_with ops (m_value (heap s self)) (m_value (heap s self))),
            m_value = snd (value_narrow_with ops (m_value (heap s self)) (m_value (heap s self)))\<rparr>
      else heap s other)"
proof (cases "other = self")
  case True
  then show ?thesis
    by (cases "m_kind (heap s self)")
       (simp_all add: at_defs is_top_def is_bottom_def update_both_members split: prod.split)
next
  case False
  then show ?thesis
    by (simp add: at_defs is_top_def is_bottom_def Let_def split: prod.split)
qed

theorem binary_operations_effect_on_argument_witness:
  "heap (join_with_at MyAbstractValue 0 1 two_objects) 0 = \<lparr>m_kind = Top, m_value = {V0, V1}\<rparr>
   \<and> heap (join_with_at MyAbstractValue 0 1 two_objects) 1 = \<lparr>m_kind = Value, m_value = {V1}\<rparr>
   \<and> heap (widen_with_at MyAbstractValue 0 1 two_objects) 1 = \<lparr>m_kind = Value, m_value = {V1}\<rparr>
   \<and> heap (meet_with_at MyAbstractValue 0 1 two_objects) 1 = \<lparr>m_kind = Value, m_value = {V1}\<rparr>
   \<and> heap (narrow_with_at MyAbstractValue 0 1 two_objects) 1 = \<lparr>m_kind = Value, m_value = {V1}\<rparr>"
proof -
  have receiver: "heap (join_with_at MyAbstractValue 0 1 two_objects) 0
                = \<lparr>m_kind = Top, m_value = {V0, V1}\<rparr>"
    by (simp add: join_with_at_refines two_objects_def MyAbstractDomain_v0 MyAbstractDomain_v1
          join_v0_v1)
  have argument: "heap two_objects 1 = \<lparr>m_kind = Value, m_value = {V1}\<rparr>"
    by (simp add: two_objects_def MyAbstractDomain_v1)
  show ?thesis
    using binary_operations_effect_on_argument
            [where ops = MyAbstractValue and s = two_objects and self = 0 and other = 1]
          receiver argument
    by simp
qed

text \<open>
  The claim as it was stated, for all elements \<open>a\<close> and \<open>b\<close>, fails in the self-call
  \<^verbatim>\<open>a.widen_with(a)\<close> on a value with delayed widening: the argument is the receiver,
  and the widening step is counted in it.
\<close>

theorem self_widening_changes_argument:
  "heap one_object 0 = \<lparr>m_kind = Value, m_value = (5, 0)\<rparr>
   \<and> heap (widen_with_at DelayedWidening 0 0 one_object) 0 = \<lparr>m_kind = Value, m_value = (5, 1)\<rparr>
   \<and> heap (widen_with_at DelayedWidening 0 0 one_object) 0 \<noteq> heap one_object 0"
  by (simp add: widen_with_at_refines one_object_def DelayedWidening_def set_to_value_def
        AbstractDomainScaffolding_default_def scaffolding_defs)

text \<open>
  C5. \<^verbatim>\<open>join\<close>, \<^verbatim>\<open>widening\<close>, \<^verbatim>\<open>meet\<close> and \<^verbatim>\<open>narrowing\<close> return what the in-place
  operation makes of a copy of the receiver, and leave the receiver and the argument as
  they were (also when receiver and argument are the same object).
\<close>

theorem functional_operations_copy_then_mutate:
  assumes "self < brk s" and "other < brk s"
  shows "fst (join (AbstractDomainScaffolding_methods ops) self other s)
           = join_with ops (heap s self) (heap s other)
       \<and> heap (snd (join (AbstractDomainScaffolding_methods ops) self other s)) self
           = heap s self
       \<and> heap (snd (join (AbstractDomainScaffolding_methods ops) self other s)) other
           = heap s other
       \<and> fst (widening (AbstractDomainScaffolding_methods ops) self other s)
           = widen_with ops (heap s self) (heap s other)
       \<and> heap (snd (widening (AbstractDomainScaffolding_methods ops) self other s)) self
           = heap s self
       \<and> heap (snd (widening (AbstractDomainScaffolding_methods ops) self other s)) other
           = heap s other
       \<and> fst (meet (AbstractDomainScaffolding_methods ops) self other s)
           = meet_with ops (heap s self) (heap s other)
       \<and> heap (snd (meet (AbstractDomainScaffolding_methods ops) self other s)) self
           = heap s self
       \<and> heap (snd (meet (AbstractDomainScaffolding_methods ops) self other s)) other
           = heap s other
       \<and> fst (narrowing_domain (AbstractDomainScaffolding_methods ops) self other s)
           = narrow_with ops (heap s self) (heap s other)
       \<and> heap (snd (narrowing_domain (AbstractDomainScaffolding_methods ops) self other s)) self
           = heap s self
       \<and> heap (snd (narrowing_domain (AbstractDomainScaffolding_methods ops) self other s)) other
           = heap s other"
  using assms
  by (simp add: join_def widening_def meet_def narrowing_domain_def
        AbstractDomainScaffolding_methods_def at_refines Let_def)

theorem functional_operations_copy_then_mutate_witness:
  "(0::addr) < brk two_objects \<and> (1::addr) < brk two_objects
   \<and> fst (join (AbstractDomainScaffolding_methods MyAbstractValue) 0 1 two_objects)
        = \<lparr>m_kind = Top, m_value = {V0, V1}\<rparr>
   \<and> heap (snd (join (AbstractDomainScaffolding_methods MyAbstractValue) 0 1 two_objects)) 0
        = \<lparr>m_kind = Value, m_value = {V0}\<rparr>
   \<and> heap (snd (join (AbstractDomainScaffolding_methods MyAbstractValue) 0 1 two_objects)) 1
        = \<lparr>m_kind = Value, m_value = {V1}\<rparr>"
proof -
  have self_in_use: "(0::addr) < brk two_objects"
    and other_in_use: "(1::addr) < brk two_objects"
    by (simp_all add: two_objects_def)
  from functional_operations_copy_then_mutate
         [OF self_in_use other_in_use, where ops = MyAbstractValue]
  show ?thesis
    by (simp add: two_objects_def MyAbstractDomain_v0 MyAbstractDomain_v1 join_v0_v1)
qed

end
